theory Spec2Isabelle
  imports Complex_Main
begin

section \<open>Shared data model\<close>

text \<open>
  A JavaScript exception value. The handlers inspect its \<open>name\<close>
  (\<open>jwtError.name === 'TokenExpiredError'\<close>), its \<open>message\<close> and, for a Mongoose
  validation error, the messages of the entries of \<open>error.errors\<close>.
\<close>

datatype js_error = JsError (err_name: string) (err_message: string) (err_errors: "string list")

text \<open>Milliseconds since the epoch, as \<open>new Date()\<close> reads them from the clock.\<close>

type_synonym timestamp = int

text \<open>\<open>models/User.js\<close>: \<open>role: enum ['senior', 'contributor', 'admin']\<close>.\<close>

datatype role = Senior | Contributor | Admin

text \<open>
  The part of a user document the middleware and the handlers read. \<open>_id\<close> is held in
  its string form (\<open>_id.toString()\<close>); \<open>password\<close> is \<open>None\<close> once a query has
  applied \<open>.select('-password')\<close>; \<open>user_isActive\<close> is the document's \<open>isActive\<close>.
\<close>

record user =
  user_id :: string
  name :: string
  email :: string
  password :: "string option"
  role :: role
  user_isActive :: bool

section \<open>The song model (\<open>models/Song.js\<close>, held in \<open>src/unnamed/part_000\<close>)\<close>

text \<open>\<open>status: enum ['pending', 'approved', 'rejected', 'hidden'], default 'pending'\<close>.\<close>

datatype song_status = Pending | Approved | Rejected | Hidden

text \<open>The \<open>audioFile\<close> / \<open>coverImage\<close> sub-documents.\<close>

record file_ref =
  ref_filename :: string
  ref_originalName :: string
  ref_mimeType :: string
  ref_size :: nat
  ref_url :: string

text \<open>
  The \<open>stats\<close> sub-document. The three counters start at 0 and are only ever incremented,
  so they are natural numbers; \<open>averageRating\<close> is a JavaScript Number, modelled by an
  exact rational (rounding of doubles is outside the model).
\<close>

record song_stats =
  playCount :: nat
  favoriteCount :: nat
  downloadCount :: nat
  lastPlayed :: "timestamp option"
  averageRating :: rat
  ratingCount :: nat

record song =
  title :: string
  artist :: string
  album :: string
  genre :: string
  year :: "int option"
  duration :: "int option"
  lyrics :: string
  language :: string
  tags :: "string list"
  audioFile :: file_ref
  coverImage :: "file_ref option"
  uploadedBy :: string
  status :: song_status
  moderationNotes :: string
  moderatedBy :: "string option"
  moderatedAt :: "timestamp option"
  stats :: song_stats
  isActive :: bool
  isFeatured :: bool

text \<open>
  The instance methods mutate \<open>this\<close> and then \<open>await this.save()\<close>. The document store
  is an external collaborator: \<open>save\<close> is a parameter that tells whether persisting the
  document throws (\<open>Some e\<close>) or succeeds (\<open>None\<close>). Each method returns the state of
  \<open>this\<close> after the call together with the error the call rejects with, if any.
\<close>

definition incrementPlayCount ::
  "(song \<Rightarrow> js_error option) \<Rightarrow> timestamp \<Rightarrow> song \<Rightarrow> song \<times> js_error option" where
  "incrementPlayCount save now this =
     (let this1 = this\<lparr>stats := (stats this)\<lparr>playCount := playCount (stats this) + 1\<rparr>\<rparr>;
          this2 = this1\<lparr>stats := (stats this1)\<lparr>lastPlayed := Some now\<rparr>\<rparr>
      in (this2, save this2))"

definition addRating ::
  "(song \<Rightarrow> js_error option) \<Rightarrow> rat \<Rightarrow> song \<Rightarrow> song \<times> js_error option" where
  "addRating save rating this =
     (if rating < 1 \<or> rating > 5
      then (this, Some (JsError ''Error'' ''Rating must be between 1 and 5'' []))
      else
        let totalRating = averageRating (stats this) * of_nat (ratingCount (stats this));
            this1 = this\<lparr>stats := (stats this)\<lparr>ratingCount := ratingCount (stats this) + 1\<rparr>\<rparr>;
            this2 = this1\<lparr>stats := (stats this1)
                      \<lparr>averageRating := (totalRating + rating) / of_nat (ratingCount (stats this1))\<rparr>\<rparr>
        in (this2, save this2))"



text \<open>A song with the schema defaults, used to exercise the theorems on concrete input.\<close>

definition example_audio_ref :: file_ref where
  "example_audio_ref =
     \<lparr>ref_filename = ''hymn-1700000000000-123456789.mp3'', ref_originalName = ''hymn.mp3'',
      ref_mimeType = ''audio/mpeg'', ref_size = 4096,
      ref_url = ''/uploads/audio/hymn-1700000000000-123456789.mp3''\<rparr>"

definition default_stats :: song_stats where
  "default_stats =
     \<lparr>playCount = 0, favoriteCount = 0, downloadCount = 0, lastPlayed = None,
      averageRating = 0, ratingCount = 0\<rparr>"

definition example_song :: song where
  "example_song =
     \<lparr>title = ''Hymn'', artist = ''Choir'', album = [], genre = [], year = None,
      duration = None, lyrics = [], language = ''en'', tags = [],
      audioFile = example_audio_ref, coverImage = None, uploadedBy = ''u1'',
      status = Pending, moderationNotes = [], moderatedBy = None, moderatedAt = None,
      stats = default_stats, isActive = True, isFeatured = False\<rparr>"

definition save_ok :: "song \<Rightarrow> js_error option" where
  "save_ok s = None"

definition save_fails :: "song \<Rightarrow> js_error option" where
  "save_fails s = Some (JsError ''MongoNetworkError'' ''connection lost'' [])"

section \<open>HTTP plumbing\<close>

text \<open>
  A JSON response: \<open>res.status(n).json({error, message})\<close> for a failure,
  \<open>res.json({message})\<close> or \<open>res.status(201).json({message, data: {song}})\<close> for a
  success (\<open>res.json\<close> alone answers with status 200).
\<close>

datatype json_body =
    ErrorJson string string
  | DetailsJson string string "string list"
  | MessageJson string
  | SongJson string song

datatype response = Response (http_status: nat) (res_body: json_body)

text \<open>
  What a middleware does with a request: it answers it, or it calls \<open>next()\<close> and hands
  the (possibly extended) request on.
\<close>

datatype 'a handled = Respond response | Next 'a

text \<open>
  The parts of an Express request the authentication and authorization middleware
  read and write: the \<open>Authorization\<close> header, the route parameter \<open>:id\<close> and the
  identity \<open>req.user\<close>. Routes that read more of the request extend this record.
\<close>

record request =
  authorization :: "string option"
  params_id :: "string option"
  req_user :: "user option"

subsection \<open>JavaScript string primitives\<close>

definition startsWith :: "string \<Rightarrow> string \<Rightarrow> bool" where
  "startsWith s p = (take (length p) s = p)"

text \<open>\<open>s.replace(pat, rep)\<close> with a string pattern replaces the first occurrence only.\<close>

fun replace_first :: "string \<Rightarrow> string \<Rightarrow> string \<Rightarrow> string" where
  "replace_first [] pat rep = (if pat = [] then rep else [])"
| "replace_first (c # cs) pat rep =
     (if startsWith (c # cs) pat then rep @ drop (length pat) (c # cs)
      else c # replace_first cs pat rep)"

text \<open>\<open>xs.join(sep)\<close>.\<close>

fun join :: "string \<Rightarrow> string list \<Rightarrow> string" where
  "join sep [] = []"
| "join sep [x] = x"
| "join sep (x # y # ys) = x @ sep @ join sep (y # ys)"

section \<open>Authentication and authorization middleware (\<open>src/middleware/auth.js\<close>)\<close>

text \<open>The decoded token payload; \<open>routes/auth.js\<close> signs \<open>{ userId }\<close>.\<close>

record payload =
  userId :: string

text \<open>\<open>process.env.JWT_SECRET || 'fallback-secret-key'\<close>: unset and empty both fall back.\<close>

definition jwt_secret :: "string option \<Rightarrow> string" where
  "jwt_secret env_JWT_SECRET =
     (case env_JWT_SECRET of
        None \<Rightarrow> ''fallback-secret-key''
      | Some k \<Rightarrow> (if k = [] then ''fallback-secret-key'' else k))"

text \<open>\<open>.select('-password')\<close>.\<close>

definition select_without_password :: "user \<Rightarrow> user" where
  "select_without_password u = u\<lparr>password := None\<rparr>"

text \<open>
  The two \<open>catch\<close> blocks of \<open>authenticate\<close>. The inner one answers 401 for the two
  error names it knows and rethrows anything else to the outer one, which answers 500.
\<close>

definition authenticate_outer_catch :: "js_error \<Rightarrow> response" where
  "authenticate_outer_catch e =
     Response 500 (ErrorJson ''Authentication failed'' ''An error occurred during authentication'')"

definition authenticate_inner_catch :: "js_error \<Rightarrow> response" where
  "authenticate_inner_catch jwtError =
     (if err_name jwtError = ''TokenExpiredError'' then
        Response 401 (ErrorJson ''Token expired'' ''Your session has expired. Please login again.'')
      else if err_name jwtError = ''JsonWebTokenError'' then
        Response 401 (ErrorJson ''Invalid token'' ''The provided token is invalid.'')
      else authenticate_outer_catch jwtError)"

text \<open>
  \<open>authenticate\<close>. The token library and the credential store are external: \<open>jwt_verify\<close>
  (token, then key) returns the payload or the error it throws, \<open>User_findById\<close> returns
  the stored document, \<open>None\<close> for \<open>null\<close>, or the error the query throws. Both calls sit
  inside the inner \<open>try\<close>, so an error of either goes through the inner \<open>catch\<close> first.
\<close>

definition authenticate ::
  "(string \<Rightarrow> string \<Rightarrow> js_error + payload) \<Rightarrow> (string \<Rightarrow> js_error + user option)
     \<Rightarrow> string option \<Rightarrow> 'a request_scheme \<Rightarrow> 'a request_scheme handled" where
  "authenticate jwt_verify User_findById env_JWT_SECRET req =
     (case authorization req of
        None \<Rightarrow>
          Respond (Response 401 (ErrorJson ''Access denied''
            ''No valid token provided. Please include Bearer token in Authorization header.''))
      | Some authHeader \<Rightarrow>
          if authHeader = [] \<or> \<not> startsWith authHeader ''Bearer '' then
            Respond (Response 401 (ErrorJson ''Access denied''
              ''No valid token provided. Please include Bearer token in Authorization header.''))
          else
            let token = replace_first authHeader ''Bearer '' [] in
            if token = [] then
              Respond (Response 401 (ErrorJson ''Access denied'' ''Token is required''))
            else
              (case jwt_verify token (jwt_secret env_JWT_SECRET) of
                 Inl jwtError \<Rightarrow> Respond (authenticate_inner_catch jwtError)
               | Inr decoded \<Rightarrow>
                   (case User_findById (userId decoded) of
                      Inl dbError \<Rightarrow> Respond (authenticate_inner_catch dbError)
                    | Inr None \<Rightarrow>
                        Respond (Response 401 (ErrorJson ''Invalid token'' ''User not found''))
                    | Inr (Some doc) \<Rightarrow>
                        let user = select_without_password doc in
                        if \<not> user_isActive user then
                          Respond (Response 401 (ErrorJson ''Account deactivated''
                            ''Your account has been deactivated. Please contact support.''))
                        else Next (req\<lparr>req_user := Some user\<rparr>))))"

text \<open>\<open>optionalAuth\<close>: the same resolution, but every failure continues anonymously.\<close>

definition optionalAuth ::
  "(string \<Rightarrow> string \<Rightarrow> js_error + payload) \<Rightarrow> (string \<Rightarrow> js_error + user option)
     \<Rightarrow> string option \<Rightarrow> 'a request_scheme \<Rightarrow> 'a request_scheme handled" where
  "optionalAuth jwt_verify User_findById env_JWT_SECRET req =
     (case authorization req of
        None \<Rightarrow> Next (req\<lparr>req_user := None\<rparr>)
      | Some authHeader \<Rightarrow>
          if authHeader = [] \<or> \<not> startsWith authHeader ''Bearer '' then
            Next (req\<lparr>req_user := None\<rparr>)
          else
            let token = replace_first authHeader ''Bearer '' [] in
            if token = [] then Next (req\<lparr>req_user := None\<rparr>)
            else
              (case jwt_verify token (jwt_secret env_JWT_SECRET) of
                 Inl jwtError \<Rightarrow> Next (req\<lparr>req_user := None\<rparr>)
               | Inr decoded \<Rightarrow>
                   (case User_findById (userId decoded) of
                      Inl dbError \<Rightarrow> Next (req\<lparr>req_user := None\<rparr>)
                    | Inr None \<Rightarrow> Next (req\<lparr>req_user := None\<rparr>)
                    | Inr (Some doc) \<Rightarrow>
                        let user = select_without_password doc in
                        if user_isActive user then Next (req\<lparr>req_user := Some user\<rparr>)
                        else Next (req\<lparr>req_user := None\<rparr>))))"

definition role_name :: "role \<Rightarrow> string" where
  "role_name r = (case r of Senior \<Rightarrow> ''senior'' | Contributor \<Rightarrow> ''contributor'' | Admin \<Rightarrow> ''admin'')"

text \<open>\<open>authorize(...roles)\<close>.\<close>

definition authorize :: "role list \<Rightarrow> 'a request_scheme \<Rightarrow> 'a request_scheme handled" where
  "authorize roles req =
     (case req_user req of
        None \<Rightarrow>
          Respond (Response 401 (ErrorJson ''Authentication required''
            ''You must be logged in to access this resource''))
      | Some u \<Rightarrow>
          if role u \<notin> set roles then
            Respond (Response 403 (ErrorJson ''Insufficient permissions''
              (''Access denied. Required role: '' @ join '' or '' (map role_name roles)
                 @ ''. Your role: '' @ role_name (role u))))
          else Next req)"

text \<open>
  \<open>requireOwnershipOrAdmin\<close>. \<open>!resourceId\<close> holds for a missing and for an empty route
  parameter. The parameter \<open>resourceUserIdPath\<close> of the source is never read.
\<close>

definition requireOwnershipOrAdmin :: "'a request_scheme \<Rightarrow> 'a request_scheme handled" where
  "requireOwnershipOrAdmin req =
     (case req_user req of
        None \<Rightarrow>
          Respond (Response 401 (ErrorJson ''Authentication required''
            ''You must be logged in to access this resource''))
      | Some u \<Rightarrow>
          if role u = Admin then Next req
          else
            (case params_id req of
               None \<Rightarrow>
                 Respond (Response 400 (ErrorJson ''Resource ID required''
                   ''Resource ID must be provided''))
             | Some resourceId \<Rightarrow>
                 if resourceId = [] then
                   Respond (Response 400 (ErrorJson ''Resource ID required''
                     ''Resource ID must be provided''))
                 else if user_id u = resourceId then Next req
                 else
                   Respond (Response 403 (ErrorJson ''Access denied''
                     ''You can only access your own resources''))))"

text \<open>The status a middleware answered with; \<open>None\<close> when it called \<open>next()\<close>.\<close>

definition answered :: "'a handled \<Rightarrow> nat option" where
  "answered h = (case h of Respond r \<Rightarrow> Some (http_status r) | Next x \<Rightarrow> None)"

definition proceeds :: "'a handled \<Rightarrow> bool" where
  "proceeds h = (case h of Respond r \<Rightarrow> False | Next x \<Rightarrow> True)"

text \<open>Concrete collaborators and requests for the witnesses.\<close>

definition alice :: user where
  "alice = \<lparr>user_id = ''64b000000000000000000001'', name = ''Alice'',
            email = ''alice@example.org'', password = Some ''$2a$12$hash'',
            role = Contributor, user_isActive = True\<rparr>"

definition bob :: user where
  "bob = \<lparr>user_id = ''64b000000000000000000002'', name = ''Bob'',
          email = ''bob@example.org'', password = Some ''$2a$12$hash'',
          role = Senior, user_isActive = False\<rparr>"

definition carol :: user where
  "carol = \<lparr>user_id = ''64b000000000000000000003'', name = ''Carol'',
           email = ''carol@example.org'', password = Some ''$2a$12$hash'',
           role = Admin, user_isActive = True\<rparr>"

definition example_verify :: "string \<Rightarrow> string \<Rightarrow> js_error + payload" where
  "example_verify token key =
     (if token = ''tok-alice'' then Inr \<lparr>userId = ''64b000000000000000000001''\<rparr>
      else if token = ''tok-bob'' then Inr \<lparr>userId = ''64b000000000000000000002''\<rparr>
      else if token = ''tok-ghost'' then Inr \<lparr>userId = ''64b0000000000000000000ff''\<rparr>
      else if token = ''tok-cast'' then Inr \<lparr>userId = ''not-an-object-id''\<rparr>
      else if token = ''tok-old'' then Inl (JsError ''TokenExpiredError'' ''jwt expired'' [])
      else if token = ''tok-early'' then Inl (JsError ''NotBeforeError'' ''jwt not active'' [])
      else Inl (JsError ''JsonWebTokenError'' ''jwt malformed'' []))"

definition example_findById :: "string \<Rightarrow> js_error + user option" where
  "example_findById uid =
     (if uid = ''64b000000000000000000001'' then Inr (Some alice)
      else if uid = ''64b000000000000000000002'' then Inr (Some bob)
      else if uid = ''64b000000000000000000003'' then Inr (Some carol)
      else if uid = ''not-an-object-id'' then Inl (JsError ''CastError'' ''Cast to ObjectId failed'' [])
      else Inr None)"

definition bearer :: "string \<Rightarrow> request" where
  "bearer token = \<lparr>authorization = Some (''Bearer '' @ token), params_id = None, req_user = None\<rparr>"

section \<open>The upload pipeline (\<open>middleware/upload.js\<close>, the second module of \<open>src/middleware/auth.js\<close>)\<close>

subsection \<open>Node's \<open>path.extname\<close> and \<open>toLowerCase\<close>\<close>

text \<open>
  The scan of \<open>path.extname\<close> (POSIX flavour), right to left over the path. \<open>startDot\<close>
  and \<open>endIdx\<close> (the source's \<open>end\<close>) are \<open>-1\<close> while unset.
\<close>

record extname_state =
  startDot :: int
  startPart :: int
  endIdx :: int
  matchedSlash :: bool
  preDotState :: int

definition extname_init :: extname_state where
  "extname_init =
     \<lparr>startDot = -1, startPart = 0, endIdx = -1, matchedSlash = True, preDotState = 0\<rparr>"

text \<open>
  The loop body at index \<open>i\<close> for a character that is not a separator, in its two
  steps: the first such character seen marks the end of the extension; then a dot
  marks its start, or the character is recorded as seen before the dot.
\<close>

definition mark_end :: "int \<Rightarrow> extname_state \<Rightarrow> extname_state" where
  "mark_end i st =
     (if endIdx st = -1 then st\<lparr>matchedSlash := False, endIdx := i + 1\<rparr> else st)"

definition mark_dot :: "char \<Rightarrow> int \<Rightarrow> extname_state \<Rightarrow> extname_state" where
  "mark_dot code i st =
     (if code = CHR ''.'' then
        (if startDot st = -1 then st\<lparr>startDot := i\<rparr>
         else if preDotState st \<noteq> 1 then st\<lparr>preDotState := 1\<rparr>
         else st)
      else if startDot st \<noteq> -1 then st\<lparr>preDotState := -1\<rparr>
      else st)"

text \<open>
  The loop \<open>for (i = path.length - 1; i >= 0; --i)\<close>, over the characters in the order
  the loop visits them (the path reversed): the head is \<open>path[i]\<close> and the tail holds
  the \<open>i\<close> characters before it. A separator after the first path component was seen
  ends the loop (\<open>break\<close>); trailing separators are skipped (\<open>continue\<close>).
\<close>

fun extname_loop :: "string \<Rightarrow> extname_state \<Rightarrow> extname_state" where
  "extname_loop [] st = st"
| "extname_loop (code # before) st =
     (if code = CHR ''/'' then
        (if \<not> matchedSlash st then st\<lparr>startPart := int (length before) + 1\<rparr>
         else extname_loop before st)
      else extname_loop before
             (mark_dot code (int (length before)) (mark_end (int (length before)) st)))"

definition extname :: "string \<Rightarrow> string" where
  "extname path =
     (let st = extname_loop (rev path) extname_init in
      if startDot st = -1 \<or> endIdx st = -1 \<or> preDotState st = 0 \<or>
         (preDotState st = 1 \<and> startDot st = endIdx st - 1 \<and> startDot st = startPart st + 1)
      then []
      else take (nat (endIdx st) - nat (startDot st)) (drop (nat (startDot st)) path))"

text \<open>
  \<open>toLowerCase\<close> on the ASCII letters; a \<open>char\<close> is a byte, and every byte other
  than \<open>A\<close>..\<open>Z\<close> is left as it is.
\<close>

definition lower_char :: "char \<Rightarrow> char" where
  "lower_char c =
     (case map_of (zip ''ABCDEFGHIJKLMNOPQRSTUVWXYZ'' ''abcdefghijklmnopqrstuvwxyz'') c of
        None \<Rightarrow> c
      | Some l \<Rightarrow> l)"

definition toLowerCase :: "string \<Rightarrow> string" where
  "toLowerCase s = map lower_char s"

subsection \<open>Files and storage\<close>

text \<open>
  A file part of a multipart request as the upload library hands it to the callbacks;
  \<open>file_size\<close> is the number of bytes the part carries.
\<close>

record upload_file =
  fieldname :: string
  originalname :: string
  mimetype :: string
  file_size :: nat

text \<open>The file information after disk storage, and with the \<open>url\<close> the middleware adds.\<close>

record stored_file = upload_file +
  destination :: string
  filename :: string
  path :: string

record attached_file = stored_file +
  url :: string

text \<open>\<open>storage.destination\<close>.\<close>

definition storage_destination :: "upload_file \<Rightarrow> string" where
  "storage_destination file =
     (let uploadPath = ''uploads/temp'' in
      if fieldname file = ''audio'' then ''uploads/audio''
      else if fieldname file = ''coverImage'' then ''uploads/images''
      else uploadPath)"

text \<open>
  Disk storage of one accepted file. \<open>storage.filename\<close> draws on the clock and on the
  random generator; the name it produces is the parameter \<open>gen_filename\<close>. The library
  joins destination and file name into \<open>path\<close>.
\<close>

definition disk_store :: "(upload_file \<Rightarrow> string) \<Rightarrow> upload_file \<Rightarrow> stored_file" where
  "disk_store gen_filename file =
     upload_file.extend file
       (stored_file.fields (storage_destination file) (gen_filename file)
          (storage_destination file @ ''/'' @ gen_filename file))"

definition attach_url :: "string \<Rightarrow> stored_file \<Rightarrow> attached_file" where
  "attach_url u f = stored_file.extend f (attached_file.fields u)"

subsection \<open>File filters\<close>

definition audio_allowedMimes :: "string list" where
  "audio_allowedMimes =
     [''audio/mpeg'', ''audio/mp3'', ''audio/wav'', ''audio/wave'', ''audio/x-wav'',
      ''audio/aac'', ''audio/ogg'', ''audio/webm'', ''audio/mp4'', ''audio/m4a'',
      ''audio/x-m4a'', ''audio/flac'']"

definition audio_allowedExtensions :: "string list" where
  "audio_allowedExtensions =
     [''.mp3'', ''.wav'', ''.aac'', ''.ogg'', ''.webm'', ''.mp4'', ''.m4a'', ''.flac'']"

definition image_allowedMimes :: "string list" where
  "image_allowedMimes =
     [''image/jpeg'', ''image/jpg'', ''image/png'', ''image/gif'', ''image/webp'']"

definition image_allowedExtensions :: "string list" where
  "image_allowedExtensions = [''.jpg'', ''.jpeg'', ''.png'', ''.gif'', ''.webp'']"

text \<open>
  A filter calls back with \<open>cb(null, true)\<close>, here \<open>Inr True\<close>, or with
  \<open>cb(new Error(...), false)\<close>, here \<open>Inl\<close> of the error.
\<close>

definition audioFileFilter :: "upload_file \<Rightarrow> js_error + bool" where
  "audioFileFilter file =
     (let fileExtension = toLowerCase (extname (originalname file)) in
      if mimetype file \<in> set audio_allowedMimes \<or> fileExtension \<in> set audio_allowedExtensions
      then Inr True
      else Inl (JsError ''Error''
             (''Invalid audio format. Allowed formats: '' @ join '', '' audio_allowedExtensions) []))"

definition imageFileFilter :: "upload_file \<Rightarrow> js_error + bool" where
  "imageFileFilter file =
     (let fileExtension = toLowerCase (extname (originalname file)) in
      if mimetype file \<in> set image_allowedMimes \<or> fileExtension \<in> set image_allowedExtensions
      then Inr True
      else Inl (JsError ''Error''
             (''Invalid image format. Allowed formats: '' @ join '', '' image_allowedExtensions) []))"

definition combinedFileFilter :: "upload_file \<Rightarrow> js_error + bool" where
  "combinedFileFilter file =
     (if fieldname file = ''audio'' then audioFileFilter file
      else if fieldname file = ''coverImage'' then imageFileFilter file
      else Inl (JsError ''Error'' ''Invalid field name'' []))"

subsection \<open>The upload library\<close>

text \<open>
  The two configurations of the source: the limits and the filter (the storage is the
  shared one above).
\<close>

record limits =
  fileSize :: nat
  files :: nat

record multer_config =
  config_limits :: limits
  fileFilter :: "upload_file \<Rightarrow> js_error + bool"

definition songUpload :: multer_config where
  "songUpload =
     \<lparr>config_limits = \<lparr>fileSize = 100 * 1024 * 1024, files = 2\<rparr>,
      fileFilter = combinedFileFilter\<rparr>"

definition profileImageUpload :: multer_config where
  "profileImageUpload =
     \<lparr>config_limits = \<lparr>fileSize = 5 * 1024 * 1024, files = 1\<rparr>,
      fileFilter = imageFileFilter\<rparr>"

text \<open>An upload fails with a library error carrying a \<open>code\<close>, or with a filter's error.\<close>

datatype upload_error = MulterError (code: string) (multer_message: string) | FilterError js_error

text \<open>\<open>filesLeft[name]\<close>: how many more files a field may take (absent counts as 0).\<close>

fun filesLeft :: "(string \<times> nat) list \<Rightarrow> string \<Rightarrow> nat" where
  "filesLeft [] k = 0"
| "filesLeft ((k', n) # rest) k = (if k' = k then n else filesLeft rest k)"

fun take_one :: "(string \<times> nat) list \<Rightarrow> string \<Rightarrow> (string \<times> nat) list" where
  "take_one [] k = []"
| "take_one ((k', n) # rest) k = (if k' = k then (k', n - 1) # rest else (k', n) # take_one rest k)"

text \<open>
  The upload library itself (multer over busboy) is a dependency, not code of this
  repository. This is its documented behaviour on the file parts of one request, in
  arrival order: a part beyond \<open>limits.files\<close> aborts with \<open>LIMIT_FILE_COUNT\<close>; a part
  whose field has no file left aborts with \<open>LIMIT_UNEXPECTED_FILE\<close>; then the
  configured filter runs, an error aborting the upload and \<open>false\<close> skipping the part;
  an accepted part is stored, and aborts with \<open>LIMIT_FILE_SIZE\<close> as soon as it reaches
  \<open>limits.fileSize\<close> bytes (a part of exactly the limit is refused). The one size limit
  applies to every file part alike.
\<close>

fun multer_files ::
  "multer_config \<Rightarrow> (upload_file \<Rightarrow> string) \<Rightarrow> (string \<times> nat) list \<Rightarrow> nat
     \<Rightarrow> upload_file list \<Rightarrow> upload_error + stored_file list" where
  "multer_files cfg gen_filename left n [] = Inr []"
| "multer_files cfg gen_filename left n (file # rest) =
     (if n \<ge> files (config_limits cfg) then Inl (MulterError ''LIMIT_FILE_COUNT'' ''Too many files'')
      else if filesLeft left (fieldname file) = 0
        then Inl (MulterError ''LIMIT_UNEXPECTED_FILE'' ''Unexpected field'')
      else
        (case fileFilter cfg file of
           Inl err \<Rightarrow> Inl (FilterError err)
         | Inr includeFile \<Rightarrow>
             if \<not> includeFile
             then multer_files cfg gen_filename (take_one left (fieldname file)) (n + 1) rest
             else if file_size file \<ge> fileSize (config_limits cfg)
               then Inl (MulterError ''LIMIT_FILE_SIZE'' ''File too large'')
             else
               (case multer_files cfg gen_filename (take_one left (fieldname file)) (n + 1) rest of
                  Inl e \<Rightarrow> Inl e
                | Inr stored \<Rightarrow> Inr (disk_store gen_filename file # stored))))"

subsection \<open>The two upload middleware\<close>

text \<open>
  The request of \<open>POST /songs\<close>: the incoming file parts, the text fields of the body
  (after the route's validators: \<open>year\<close> and \<open>duration\<close> are the integers the fields
  hold), what the upload middleware attaches, and whether \<open>cleanupFiles\<close> has
  installed \<open>req.cleanup\<close>.
\<close>

record song_body =
  body_title :: string
  body_artist :: string
  body_album :: "string option"
  body_genre :: "string option"
  body_year :: "int option"
  body_duration :: "int option"
  body_lyrics :: "string option"
  body_language :: "string option"
  body_tags :: "string list option"

record song_request = request +
  parts :: "upload_file list"
  body :: song_body
  req_files :: "stored_file list"
  req_audioFile :: "attached_file option"
  req_coverImage :: "attached_file option"
  req_cleanup :: bool

definition files_of :: "string \<Rightarrow> stored_file list \<Rightarrow> stored_file list" where
  "files_of field fs = filter (\<lambda>f. fieldname f = field) fs"

definition uploadSongFiles ::
  "(upload_file \<Rightarrow> string) \<Rightarrow> song_request \<Rightarrow> song_request handled" where
  \<open>uploadSongFiles gen_filename req =
     (case multer_files songUpload gen_filename [(''audio'', 1), (''coverImage'', 1)] 0 (parts req) of
        Inl (MulterError c m) \<Rightarrow>
          Respond (Response 400 (ErrorJson ''File upload failed''
            (if c = ''LIMIT_FILE_SIZE''
               then ''File too large. Audio files must be under 100MB, images under 5MB''
             else if c = ''LIMIT_FILE_COUNT''
               then ''Too many files. Maximum 1 audio file and 1 cover image allowed''
             else if c = ''LIMIT_FIELD_COUNT'' then ''Too many fields in request''
             else if c = ''LIMIT_UNEXPECTED_FILE''
               then ''Unexpected file field. Only "audio" and "coverImage" fields are allowed''
             else ''Upload error: '' @ m)))
      | Inl (FilterError err) \<Rightarrow>
          Respond (Response 400 (ErrorJson ''File upload failed'' (err_message err)))
      | Inr stored \<Rightarrow>
          if files_of ''audio'' stored = [] then
            Respond (Response 400 (ErrorJson ''Audio file required'' ''Please provide an audio file''))
          else
            let audio0 = hd (files_of ''audio'' stored);
                req1 = req\<lparr>req_files := stored,
                          req_audioFile := Some (attach_url (''/uploads/audio/'' @ filename audio0) audio0)\<rparr>;
                req2 = (case files_of ''coverImage'' stored of
                          [] \<Rightarrow> req1
                        | cover0 # others \<Rightarrow>
                            req1\<lparr>req_coverImage :=
                              Some (attach_url (''/uploads/images/'' @ filename cover0) cover0)\<rparr>)
            in Next req2)\<close>

text \<open>The request of \<open>POST /users/:id/avatar\<close>.\<close>

record avatar_request = request +
  avatar_parts :: "upload_file list"
  req_file :: "stored_file option"
  req_uploadedImage :: "attached_file option"

definition uploadProfileImage ::
  "(upload_file \<Rightarrow> string) \<Rightarrow> avatar_request \<Rightarrow> avatar_request handled" where
  "uploadProfileImage gen_filename req =
     (case multer_files profileImageUpload gen_filename [(''avatar'', 1)] 0 (avatar_parts req) of
        Inl (MulterError c m) \<Rightarrow>
          Respond (Response 400 (ErrorJson ''Image upload failed''
            (if c = ''LIMIT_FILE_SIZE'' then ''Image too large. Maximum size is 5MB''
             else ''Upload error: '' @ m)))
      | Inl (FilterError err) \<Rightarrow>
          Respond (Response 400 (ErrorJson ''Image upload failed'' (err_message err)))
      | Inr stored \<Rightarrow>
          (case stored of
             [] \<Rightarrow> Next (req\<lparr>req_file := None\<rparr>)
           | file0 # others \<Rightarrow>
               Next (req\<lparr>req_file := Some file0,
                        req_uploadedImage :=
                          Some (attach_url (''/uploads/images/'' @ filename file0) file0)\<rparr>)))"

text \<open>
  \<open>cleanupFiles\<close> stores the cleanup function on the request; \<open>cleanup_paths\<close> are the
  files that function deletes when a handler calls it.
\<close>

definition cleanupFiles :: "song_request \<Rightarrow> song_request handled" where
  "cleanupFiles req = Next (req\<lparr>req_cleanup := True\<rparr>)"

definition cleanup_paths :: "song_request \<Rightarrow> string list" where
  "cleanup_paths req =
     map path (take 1 (files_of ''audio'' (req_files req)))
       @ map path (take 1 (files_of ''coverImage'' (req_files req)))"

section \<open>Song routes (\<open>src/unnamed/part_001\<close>)\<close>

subsection \<open>Creating a document from the schema\<close>

text \<open>\<open>trim: true\<close> of the schema strips white space at both ends (ASCII white space here).\<close>

definition is_space :: "char \<Rightarrow> bool" where
  "is_space c = (c \<in> {CHR 0x09, CHR 0x0A, CHR 0x0B, CHR 0x0C, CHR 0x0D, CHR '' ''})"

definition trim :: "string \<Rightarrow> string" where
  "trim s = rev (dropWhile is_space (rev (dropWhile is_space s)))"

text \<open>
  The object literal \<open>songData\<close> of the upload handler; a field the handler may leave
  unset is an option.
\<close>

record song_data =
  data_title :: string
  data_artist :: string
  data_album :: string
  data_genre :: string
  data_year :: "int option"
  data_duration :: "int option"
  data_lyrics :: string
  data_language :: string
  data_tags :: "string list"
  data_uploadedBy :: string
  data_audioFile :: file_ref
  data_coverImage :: "file_ref option"
  data_status :: "song_status option"
  data_moderatedBy :: "string option"
  data_moderatedAt :: "timestamp option"

text \<open>\<open>new Song(songData)\<close>: the schema's setters and defaults fill the document.\<close>

definition new_Song :: "song_data \<Rightarrow> song" where
  "new_Song d =
     \<lparr>title = trim (data_title d), artist = trim (data_artist d),
      album = trim (data_album d), genre = trim (data_genre d),
      year = data_year d, duration = data_duration d, lyrics = data_lyrics d,
      language = data_language d, tags = map trim (data_tags d),
      audioFile = data_audioFile d, coverImage = data_coverImage d,
      uploadedBy = data_uploadedBy d,
      status = (case data_status d of None \<Rightarrow> Pending | Some st \<Rightarrow> st),
      moderationNotes = [],
      moderatedBy = data_moderatedBy d, moderatedAt = data_moderatedAt d,
      stats = \<lparr>playCount = 0, favoriteCount = 0, downloadCount = 0, lastPlayed = None,
               averageRating = 0, ratingCount = 0\<rparr>,
      isActive = True, isFeatured = False\<rparr>"

text \<open>\<open>x || d\<close> on an optional string: unset and empty both give the default.\<close>

definition or_default :: "'a list option \<Rightarrow> 'a list \<Rightarrow> 'a list" where
  "or_default x d = (case x of None \<Rightarrow> d | Some v \<Rightarrow> (if v = [] then d else v))"

definition file_ref_of :: "attached_file \<Rightarrow> file_ref" where
  "file_ref_of f =
     \<lparr>ref_filename = filename f, ref_originalName = originalname f,
      ref_mimeType = mimetype f, ref_size = file_size f, ref_url = url f\<rparr>"

subsection \<open>\<open>POST /songs\<close>\<close>

text \<open>
  The document the handler builds before saving it: \<open>songData\<close>, the cover image when
  one was uploaded, the auto-approval of an admin's upload, then \<open>new Song(songData)\<close>.
  \<open>now\<close> is the clock reading of \<open>new Date()\<close>.
\<close>

definition build_song :: "timestamp \<Rightarrow> user \<Rightarrow> attached_file \<Rightarrow> song_request \<Rightarrow> song" where
  "build_song now u audio req =
     (let b = body req;
          songData0 =
            \<lparr>data_title = body_title b, data_artist = body_artist b,
             data_album = or_default (body_album b) [],
             data_genre = or_default (body_genre b) [],
             data_year = body_year b, data_duration = body_duration b,
             data_lyrics = or_default (body_lyrics b) [],
             data_language = or_default (body_language b) ''en'',
             data_tags = or_default (body_tags b) [],
             data_uploadedBy = user_id u,
             data_audioFile = file_ref_of audio,
             data_coverImage = None, data_status = None,
             data_moderatedBy = None, data_moderatedAt = None\<rparr>;
          songData1 =
            (case req_coverImage req of
               None \<Rightarrow> songData0
             | Some cover \<Rightarrow> songData0\<lparr>data_coverImage := Some (file_ref_of cover)\<rparr>);
          songData2 =
            (if role u = Admin
             then songData1\<lparr>data_status := Some Approved,
                            data_moderatedBy := Some (user_id u),
                            data_moderatedAt := Some now\<rparr>
             else songData1)
      in new_Song songData2)"

text \<open>
  The handler: the response, and the paths its failure path deletes. Reading
  \<open>req.user._id\<close> or \<open>req.audioFile.filename\<close> of an unset value throws a
  \<open>TypeError\<close> inside the \<open>try\<close>; \<open>save\<close> tells whether saving (and populating) the new
  document throws.
\<close>

definition post_song_attempt ::
  "(song \<Rightarrow> js_error option) \<Rightarrow> timestamp \<Rightarrow> song_request \<Rightarrow> js_error + song" where
  "post_song_attempt save now req =
     (case req_user req of
        None \<Rightarrow> Inl (JsError ''TypeError'' ''Cannot read properties of undefined'' [])
      | Some u \<Rightarrow>
          (case req_audioFile req of
             None \<Rightarrow> Inl (JsError ''TypeError'' ''Cannot read properties of undefined'' [])
           | Some audio \<Rightarrow>
               let song = build_song now u audio req in
               (case save song of Some error \<Rightarrow> Inl error | None \<Rightarrow> Inr song)))"

definition post_song_handler ::
  "(song \<Rightarrow> js_error option) \<Rightarrow> timestamp \<Rightarrow> song_request \<Rightarrow> response \<times> string list" where
  "post_song_handler save now req =
     (case post_song_attempt save now req of
        Inr song \<Rightarrow> (Response 201 (SongJson ''Song uploaded successfully'' song), [])
      | Inl error \<Rightarrow>
          (if err_name error = ''ValidationError''
           then Response 400 (DetailsJson ''Validation failed'' ''Please check your song data''
                  (err_errors error))
           else Response 500 (ErrorJson ''Song upload failed''
                  ''An error occurred while uploading the song''),
           if req_cleanup req then cleanup_paths req else []))"

subsection \<open>\<open>DELETE /songs/:id\<close>\<close>

text \<open>
  The catalog store: the documents by id. \<open>find_error\<close> and \<open>save\<close> tell whether the
  lookup of an id, and the saving of a document, throw. A successful save writes the
  document back under the id it was found by. \<open>findById(undefined)\<close> resolves to
  \<open>null\<close>.
\<close>

type_synonym song_store = "string \<Rightarrow> song option"

definition delete_song_handler ::
  "(string \<Rightarrow> js_error option) \<Rightarrow> (song \<Rightarrow> js_error option) \<Rightarrow> song_store
     \<Rightarrow> 'a request_scheme \<Rightarrow> response \<times> song_store" where
  "delete_song_handler find_error save store req =
     (let not_found = Response 404 (ErrorJson ''Song not found''
                        ''The requested song could not be found'');
          failed = Response 500 (ErrorJson ''Song deletion failed''
                     ''An error occurred while deleting the song'')
      in
      case params_id req of
        None \<Rightarrow> (not_found, store)
      | Some sid \<Rightarrow>
          (case find_error sid of
             Some e \<Rightarrow> (failed, store)
           | None \<Rightarrow>
               (case store sid of
                  None \<Rightarrow> (not_found, store)
                | Some song \<Rightarrow>
                    (case req_user req of
                       None \<Rightarrow> (failed, store)
                     | Some u \<Rightarrow>
                         if uploadedBy song \<noteq> user_id u \<and> role u \<noteq> Admin then
                           (Response 403 (ErrorJson ''Access denied''
                              ''You can only delete your own songs''), store)
                         else
                           let song' = song\<lparr>isActive := False\<rparr> in
                           (case save song' of
                              Some e \<Rightarrow> (failed, store)
                            | None \<Rightarrow>
                                (Response 200 (MessageJson ''Song deleted successfully''),
                                 store(sid \<mapsto> song')))))))"

section \<open>Concrete inputs\<close>

definition gen_name :: "upload_file \<Rightarrow> string" where
  "gen_name f = ''1700000000000-42-'' @ originalname f"

definition mislabelled_mp3 :: upload_file where
  "mislabelled_mp3 =
     \<lparr>fieldname = ''audio'', originalname = ''Song.MP3'',
      mimetype = ''application/octet-stream'', file_size = 1024 * 1024\<rparr>"

definition misnamed_mpeg :: upload_file where
  "misnamed_mpeg =
     \<lparr>fieldname = ''audio'', originalname = ''track.txt'', mimetype = ''audio/mpeg'',
      file_size = 1024 * 1024\<rparr>"

definition text_note :: upload_file where
  "text_note =
     \<lparr>fieldname = ''audio'', originalname = ''notes.txt'', mimetype = ''text/plain'',
      file_size = 10\<rparr>"

definition long_audio :: upload_file where
  "long_audio =
     \<lparr>fieldname = ''audio'', originalname = ''hymn.mp3'', mimetype = ''audio/mpeg'',
      file_size = 50 * 1024 * 1024\<rparr>"

definition big_cover :: upload_file where
  "big_cover =
     \<lparr>fieldname = ''coverImage'', originalname = ''cover.png'', mimetype = ''image/png'',
      file_size = 6 * 1024 * 1024\<rparr>"

definition big_avatar :: upload_file where
  "big_avatar =
     \<lparr>fieldname = ''avatar'', originalname = ''cover.png'', mimetype = ''image/png'',
      file_size = 6 * 1024 * 1024\<rparr>"

definition small_avatar :: upload_file where
  "small_avatar =
     \<lparr>fieldname = ''avatar'', originalname = ''me.png'', mimetype = ''image/png'',
      file_size = 2048\<rparr>"

definition example_body :: song_body where
  "example_body =
     \<lparr>body_title = ''Hymn'', body_artist = ''Choir'', body_album = None, body_genre = None,
      body_year = Some 1999, body_duration = None, body_lyrics = None,
      body_language = None, body_tags = None\<rparr>"

definition song_request_of :: "user option \<Rightarrow> upload_file list \<Rightarrow> song_request" where
  "song_request_of u fs =
     \<lparr>authorization = None, params_id = None, req_user = u, parts = fs, body = example_body,
      req_files = [], req_audioFile = None, req_coverImage = None, req_cleanup = False\<rparr>"

definition avatar_request_of :: "user option \<Rightarrow> upload_file list \<Rightarrow> avatar_request" where
  "avatar_request_of u fs =
     \<lparr>authorization = None, params_id = Some ''64b000000000000000000001'', req_user = u,
      avatar_parts = fs, req_file = None, req_uploadedImage = None\<rparr>"

definition example_attached :: attached_file where
  "example_attached =
     attach_url ''/uploads/audio/1700000000000-42-hymn.mp3''
       (disk_store gen_name
          \<lparr>fieldname = ''audio'', originalname = ''hymn.mp3'', mimetype = ''audio/mpeg'',
           file_size = 4096\<rparr>)"

definition uploaded_request :: "user \<Rightarrow> song_request" where
  "uploaded_request u =
     (song_request_of (Some u) [])\<lparr>req_audioFile := Some example_attached, req_cleanup := True\<rparr>"

definition dave :: user where
  "dave = \<lparr>user_id = ''64b000000000000000000004'', name = ''Dave'',
          email = ''dave@example.org'', password = None,
          role = Senior, user_isActive = True\<rparr>"

definition example_store :: song_store where
  "example_store =
     [''64c000000000000000000001''
        \<mapsto> example_song\<lparr>uploadedBy := ''64b000000000000000000001''\<rparr>]"

text \<open>
  A lookup that throws for an id that does not cast to an ObjectId, as the store's
  \<open>findById\<close> does, and answers for every other id.
\<close>

definition example_find_error :: "string \<Rightarrow> js_error option" where
  "example_find_error sid =
     (if sid = ''abc'' then Some (JsError ''CastError'' ''Cast to ObjectId failed'' [])
      else None)"

definition delete_request :: "user \<Rightarrow> string \<Rightarrow> request" where
  "delete_request u sid = \<lparr>authorization = None, params_id = Some sid, req_user = Some u\<rparr>"

definition no_error :: "'a \<Rightarrow> js_error option" where
  "no_error x = None"

section \<open>Authentication, required mode\<close>

lemma replace_first_prefix: "p \<noteq> [] \<Longrightarrow> replace_first (p @ t) p r = r @ t"
  by (cases p) (simp_all add: startsWith_def)

lemma startsWith_append: "startsWith (p @ t) p"
  by (simp add: startsWith_def)

text \<open>
  Claim C1, as stated, says that a present token failing verification is answered
  401. The inner \<open>catch\<close> answers 401 for the error names \<open>TokenExpiredError\<close> and
  \<open>JsonWebTokenError\<close> only and rethrows every other error: a correctly signed token
  that is not yet valid fails verification with a \<open>NotBeforeError\<close> and is answered
  500.
\<close>

theorem authenticate_counterexample:
  "example_verify ''tok-early'' (jwt_secret None)
     = Inl (JsError ''NotBeforeError'' ''jwt not active'' []) \<and>
   authenticate example_verify example_findById None (bearer ''tok-early'')
     = Respond (Response 500
         (ErrorJson ''Authentication failed'' ''An error occurred during authentication'')) \<and>
   answered (authenticate example_verify example_findById None (bearer ''tok-early''))
     \<noteq> Some 401"
proof -
  have v: "example_verify ''tok-early'' (jwt_secret None)
      = Inl (JsError ''NotBeforeError'' ''jwt not active'' [])"
    by (simp add: example_verify_def)
  have h: "authorization (bearer ''tok-early'') = Some (''Bearer '' @ ''tok-early'')"
    by (simp add: bearer_def)
  have t: "replace_first (''Bearer '' @ ''tok-early'') ''Bearer '' [] = ''tok-early''"
    using replace_first_prefix [of "''Bearer ''" "''tok-early''" "[]"] by simp
  have a: "authenticate example_verify example_findById None (bearer ''tok-early'')
      = Respond (authenticate_inner_catch (JsError ''NotBeforeError'' ''jwt not active'' []))"
    unfolding authenticate_def h
    using startsWith_append [of "''Bearer ''" "''tok-early''"] t v
    by (simp add: Let_def del: append.simps)
  show ?thesis
    using v a
    by (simp add: authenticate_inner_catch_def authenticate_outer_catch_def answered_def)
qed

text \<open>
  Claim C1, amended. For every request handled by \<open>authenticate\<close>: a missing header, a
  header that does not start with \<open>Bearer \<close> (and a header that is \<open>Bearer \<close> with no
  token) is answered 401. With a token present, a verification that fails with an
  expired-token error (\<open>TokenExpiredError\<close>) or an invalid-token error
  (\<open>JsonWebTokenError\<close>) is answered 401, the two answers differing in the JSON body
  only (its error label and message); a verified token whose subject the credential
  store does not hold is answered 401; a subject found but inactive is answered 401;
  otherwise the resolved user, without its password, is attached to the request and
  control proceeds. Any other error thrown by the token library (a verification
  failure of another kind included) or by the store is answered 500.
\<close>

theorem authenticate_required_mode:
  "(authorization req = None \<or> (\<exists>h. authorization req = Some h \<and> \<not> startsWith h ''Bearer '')
      \<or> authorization req = Some ''Bearer ''
      \<longrightarrow> answered (authenticate V F k req) = Some 401)
   \<and> (authorization req = Some (''Bearer '' @ token) \<and> token \<noteq> [] \<longrightarrow>
        (\<forall>e. V token (jwt_secret k) = Inl e \<and> err_name e = ''TokenExpiredError'' \<longrightarrow>
            authenticate V F k req = Respond (Response 401
              (ErrorJson ''Token expired'' ''Your session has expired. Please login again.'')))
      \<and> (\<forall>e. V token (jwt_secret k) = Inl e \<and> err_name e = ''JsonWebTokenError'' \<longrightarrow>
            authenticate V F k req = Respond (Response 401
              (ErrorJson ''Invalid token'' ''The provided token is invalid.'')))
      \<and> (\<forall>e. V token (jwt_secret k) = Inl e \<and> err_name e \<noteq> ''TokenExpiredError''
              \<and> err_name e \<noteq> ''JsonWebTokenError'' \<longrightarrow>
            answered (authenticate V F k req) = Some 500)
      \<and> (\<forall>d. V token (jwt_secret k) = Inr d \<longrightarrow>
            (F (userId d) = Inr None \<longrightarrow> answered (authenticate V F k req) = Some 401)
          \<and> (\<forall>doc. F (userId d) = Inr (Some doc) \<and> \<not> user_isActive doc \<longrightarrow>
                answered (authenticate V F k req) = Some 401)
          \<and> (\<forall>doc. F (userId d) = Inr (Some doc) \<and> user_isActive doc \<longrightarrow>
                authenticate V F k req = Next (req\<lparr>req_user := Some (doc\<lparr>password := None\<rparr>)\<rparr>))
          \<and> (\<forall>e. F (userId d) = Inl e \<and> err_name e \<noteq> ''TokenExpiredError''
                  \<and> err_name e \<noteq> ''JsonWebTokenError'' \<longrightarrow>
                answered (authenticate V F k req) = Some 500)))"
proof (rule conjI; rule impI)
  assume "authorization req = None \<or> (\<exists>h. authorization req = Some h \<and> \<not> startsWith h ''Bearer '')
      \<or> authorization req = Some ''Bearer ''"
  then show "answered (authenticate V F k req) = Some 401"
    by (auto simp add: authenticate_def answered_def startsWith_def)
next
  assume h: "authorization req = Some (''Bearer '' @ token) \<and> token \<noteq> []"
  have tok: "replace_first (''Bearer '' @ token) ''Bearer '' [] = token"
    using replace_first_prefix [of "''Bearer ''" token "[]"] by simp
  have sw: "startsWith (''Bearer '' @ token) ''Bearer ''"
    by (rule startsWith_append)
  have unf: "authenticate V F k req =
    (case V token (jwt_secret k) of
       Inl jwtError \<Rightarrow> Respond (authenticate_inner_catch jwtError)
     | Inr decoded \<Rightarrow>
         (case F (userId decoded) of
            Inl dbError \<Rightarrow> Respond (authenticate_inner_catch dbError)
          | Inr None \<Rightarrow> Respond (Response 401 (ErrorJson ''Invalid token'' ''User not found''))
          | Inr (Some doc) \<Rightarrow>
              if \<not> user_isActive doc then
                Respond (Response 401 (ErrorJson ''Account deactivated''
                  ''Your account has been deactivated. Please contact support.''))
              else Next (req\<lparr>req_user := Some (doc\<lparr>password := None\<rparr>)\<rparr>)))"
    using h tok sw unfolding authenticate_def
    by (simp add: Let_def select_without_password_def del: append.simps
          split: sum.splits option.splits)
  show "(\<forall>e. V token (jwt_secret k) = Inl e \<and> err_name e = ''TokenExpiredError'' \<longrightarrow>
            authenticate V F k req = Respond (Response 401
              (ErrorJson ''Token expired'' ''Your session has expired. Please login again.'')))
      \<and> (\<forall>e. V token (jwt_secret k) = Inl e \<and> err_name e = ''JsonWebTokenError'' \<longrightarrow>
            authenticate V F k req = Respond (Response 401
              (ErrorJson ''Invalid token'' ''The provided token is invalid.'')))
      \<and> (\<forall>e. V token (jwt_secret k) = Inl e \<and> err_name e \<noteq> ''TokenExpiredError''
              \<and> err_name e \<noteq> ''JsonWebTokenError'' \<longrightarrow>
            answered (authenticate V F k req) = Some 500)
      \<and> (\<forall>d. V token (jwt_secret k) = Inr d \<longrightarrow>
            (F (userId d) = Inr None \<longrightarrow> answered (authenticate V F k req) = Some 401)
          \<and> (\<forall>doc. F (userId d) = Inr (Some doc) \<and> \<not> user_isActive doc \<longrightarrow>
                answered (authenticate V F k req) = Some 401)
          \<and> (\<forall>doc. F (userId d) = Inr (Some doc) \<and> user_isActive doc \<longrightarrow>
                authenticate V F k req = Next (req\<lparr>req_user := Some (doc\<lparr>password := None\<rparr>)\<rparr>))
          \<and> (\<forall>e. F (userId d) = Inl e \<and> err_name e \<noteq> ''TokenExpiredError''
                  \<and> err_name e \<noteq> ''JsonWebTokenError'' \<longrightarrow>
                answered (authenticate V F k req) = Some 500))"
    unfolding unf
    by (simp add: authenticate_inner_catch_def authenticate_outer_catch_def answered_def)
qed

theorem authenticate_required_mode_witness:
  "answered (authenticate example_verify example_findById None
      \<lparr>authorization = None, params_id = None, req_user = None\<rparr>) = Some 401 \<and>
   answered (authenticate example_verify example_findById None
      \<lparr>authorization = Some ''Basic dXNlcjpwdw=='', params_id = None, req_user = None\<rparr>) = Some 401 \<and>
   answered (authenticate example_verify example_findById None (bearer [])) = Some 401 \<and>
   authenticate example_verify example_findById None (bearer ''tok-old'')
     = Respond (Response 401
         (ErrorJson ''Token expired'' ''Your session has expired. Please login again.'')) \<and>
   authenticate example_verify example_findById None (bearer ''garbage'')
     = Respond (Response 401 (ErrorJson ''Invalid token'' ''The provided token is invalid.'')) \<and>
   answered (authenticate example_verify example_findById None (bearer ''tok-early'')) = Some 500 \<and>
   answered (authenticate example_verify example_findById None (bearer ''tok-ghost'')) = Some 401 \<and>
   answered (authenticate example_verify example_findById None (bearer ''tok-bob'')) = Some 401 \<and>
   authenticate example_verify example_findById None (bearer ''tok-alice'')
     = Next ((bearer ''tok-alice'')\<lparr>req_user := Some (alice\<lparr>password := None\<rparr>)\<rparr>) \<and>
   answered (authenticate example_verify example_findById None (bearer ''tok-cast'')) = Some 500"
proof -
  have hdr: "\<not> startsWith ''Basic dXNlcjpwdw=='' ''Bearer ''"
    by (simp add: startsWith_def)
  have v: "example_verify ''tok-old'' (jwt_secret None) = Inl (JsError ''TokenExpiredError'' ''jwt expired'' [])"
    "example_verify ''garbage'' (jwt_secret None) = Inl (JsError ''JsonWebTokenError'' ''jwt malformed'' [])"
    "example_verify ''tok-early'' (jwt_secret None) = Inl (JsError ''NotBeforeError'' ''jwt not active'' [])"
    "example_verify ''tok-ghost'' (jwt_secret None) = Inr \<lparr>userId = ''64b0000000000000000000ff''\<rparr>"
    "example_verify ''tok-bob'' (jwt_secret None) = Inr \<lparr>userId = ''64b000000000000000000002''\<rparr>"
    "example_verify ''tok-alice'' (jwt_secret None) = Inr \<lparr>userId = ''64b000000000000000000001''\<rparr>"
    "example_verify ''tok-cast'' (jwt_secret None) = Inr \<lparr>userId = ''not-an-object-id''\<rparr>"
    by (simp_all add: example_verify_def)
  have f: "example_findById ''64b0000000000000000000ff'' = Inr None"
    "example_findById ''64b000000000000000000002'' = Inr (Some bob)"
    "example_findById ''64b000000000000000000001'' = Inr (Some alice)"
    "example_findById ''not-an-object-id'' = Inl (JsError ''CastError'' ''Cast to ObjectId failed'' [])"
    by (simp_all add: example_findById_def)
  have u: "\<not> user_isActive bob" "user_isActive alice"
    by (simp_all add: alice_def bob_def)
  have b: "\<And>t. authorization (bearer t) = Some (''Bearer '' @ t)"
    by (simp add: bearer_def)
  show ?thesis
    using
      authenticate_required_mode [where req = "\<lparr>authorization = None, params_id = None, req_user = None\<rparr>"
        and V = example_verify and F = example_findById and k = None]
      authenticate_required_mode [where req = "\<lparr>authorization = Some ''Basic dXNlcjpwdw=='', params_id = None, req_user = None\<rparr>"
        and V = example_verify and F = example_findById and k = None]
      authenticate_required_mode [where req = "bearer []"
        and V = example_verify and F = example_findById and k = None]
      authenticate_required_mode [where req = "bearer ''tok-old''" and token = "''tok-old''"
        and V = example_verify and F = example_findById and k = None]
      authenticate_required_mode [where req = "bearer ''garbage''" and token = "''garbage''"
        and V = example_verify and F = example_findById and k = None]
      authenticate_required_mode [where req = "bearer ''tok-early''" and token = "''tok-early''"
        and V = example_verify and F = example_findById and k = None]
      authenticate_required_mode [where req = "bearer ''tok-ghost''" and token = "''tok-ghost''"
        and V = example_verify and F = example_findById and k = None]
      authenticate_required_mode [where req = "bearer ''tok-bob''" and token = "''tok-bob''"
        and V = example_verify and F = example_findById and k = None]
      authenticate_required_mode [where req = "bearer ''tok-alice''" and token = "''tok-alice''"
        and V = example_verify and F = example_findById and k = None]
      authenticate_required_mode [where req = "bearer ''tok-cast''" and token = "''tok-cast''"
        and V = example_verify and F = example_findById and k = None]
      hdr v f u b
    by (simp del: append.simps)
qed

section \<open>Ownership-or-admin authorization\<close>

text \<open>
  Claim C2, as stated, says that a non-admin identity whose id differs from the
  resource id of the route is always answered 403. The middleware first checks that
  the route carries a resource id at all: a contributor on a route without \<open>:id\<close> is
  answered 400, not 403.
\<close>

theorem ownership_or_admin_counterexample:
  "role alice \<noteq> Admin \<and>
   params_id \<lparr>authorization = None, params_id = None, req_user = Some alice\<rparr>
     \<noteq> Some (user_id alice) \<and>
   answered (requireOwnershipOrAdmin
      \<lparr>authorization = None, params_id = None, req_user = Some alice\<rparr>) = Some 400 \<and>
   answered (requireOwnershipOrAdmin
      \<lparr>authorization = None, params_id = None, req_user = Some alice\<rparr>) \<noteq> Some 403"
  by (simp add: requireOwnershipOrAdmin_def answered_def alice_def)

text \<open>
  Claim C2, amended. With no attached identity the middleware answers 401. With an
  attached identity: an admin proceeds; any other identity is answered 400 when the
  route carries no (or an empty) resource id, and otherwise proceeds exactly when its
  own id equals the resource id and is answered 403 when it does not.
\<close>

theorem ownership_or_admin:
  "(req_user req = None \<longrightarrow> answered (requireOwnershipOrAdmin req) = Some 401)
   \<and> (\<forall>u. req_user req = Some u \<longrightarrow>
         (role u = Admin \<longrightarrow> requireOwnershipOrAdmin req = Next req)
       \<and> (role u \<noteq> Admin \<longrightarrow>
             (params_id req = None \<or> params_id req = Some [] \<longrightarrow>
                answered (requireOwnershipOrAdmin req) = Some 400)
           \<and> (\<forall>resourceId. params_id req = Some resourceId \<and> resourceId \<noteq> [] \<longrightarrow>
                 (proceeds (requireOwnershipOrAdmin req) \<longleftrightarrow> user_id u = resourceId)
               \<and> (user_id u = resourceId \<longrightarrow> requireOwnershipOrAdmin req = Next req)
               \<and> (user_id u \<noteq> resourceId \<longrightarrow>
                     answered (requireOwnershipOrAdmin req) = Some 403))))"
  by (auto simp add: requireOwnershipOrAdmin_def answered_def proceeds_def)

theorem ownership_or_admin_witness:
  "answered (requireOwnershipOrAdmin
      \<lparr>authorization = None, params_id = Some ''64b000000000000000000001'', req_user = None\<rparr>)
     = Some 401 \<and>
   proceeds (requireOwnershipOrAdmin
      \<lparr>authorization = None, params_id = Some ''64b000000000000000000001'', req_user = Some carol\<rparr>) \<and>
   proceeds (requireOwnershipOrAdmin
      \<lparr>authorization = None, params_id = Some ''64b000000000000000000001'', req_user = Some alice\<rparr>) \<and>
   answered (requireOwnershipOrAdmin
      \<lparr>authorization = None, params_id = Some ''64b000000000000000000002'', req_user = Some alice\<rparr>)
     = Some 403 \<and>
   answered (requireOwnershipOrAdmin
      \<lparr>authorization = None, params_id = None, req_user = Some alice\<rparr>) = Some 400"
  using
    ownership_or_admin [of "\<lparr>authorization = None, params_id = Some ''64b000000000000000000001'', req_user = None\<rparr>"]
    ownership_or_admin [of "\<lparr>authorization = None, params_id = Some ''64b000000000000000000001'', req_user = Some carol\<rparr>"]
    ownership_or_admin [of "\<lparr>authorization = None, params_id = Some ''64b000000000000000000001'', req_user = Some alice\<rparr>"]
    ownership_or_admin [of "\<lparr>authorization = None, params_id = Some ''64b000000000000000000002'', req_user = Some alice\<rparr>"]
    ownership_or_admin [of "\<lparr>authorization = None, params_id = None, req_user = Some alice\<rparr>"]
  by (simp add: alice_def carol_def proceeds_def)

section \<open>Status of a freshly uploaded track\<close>

text \<open>
  Claim C3. For every song created via the upload endpoint (the handler answers 201
  with the saved document): if the uploader's role is admin the track is created with
  status approved, moderator the uploader's own id and moderation timestamp the
  handler's clock reading at creation; for every other uploader the track is created
  with status pending (and no moderator).
\<close>

theorem upload_initial_status:
  "(\<forall>u audio. req_user req = Some u \<and> req_audioFile req = Some audio
        \<and> save (build_song now u audio req) = None \<longrightarrow>
        fst (post_song_handler save now req)
          = Response 201 (SongJson ''Song uploaded successfully'' (build_song now u audio req))
      \<and> uploadedBy (build_song now u audio req) = user_id u
      \<and> (role u = Admin \<longrightarrow>
            status (build_song now u audio req) = Approved
          \<and> moderatedBy (build_song now u audio req) = Some (user_id u)
          \<and> moderatedAt (build_song now u audio req) = Some now)
      \<and> (role u \<noteq> Admin \<longrightarrow>
            status (build_song now u audio req) = Pending
          \<and> moderatedBy (build_song now u audio req) = None
          \<and> moderatedAt (build_song now u audio req) = None))
   \<and> (\<forall>msg s d. post_song_handler save now req = (Response 201 (SongJson msg s), d) \<longrightarrow>
         (\<exists>u. req_user req = Some u \<and> uploadedBy s = user_id u
            \<and> (role u = Admin \<longrightarrow>
                  status s = Approved \<and> moderatedBy s = Some (user_id u) \<and> moderatedAt s = Some now)
            \<and> (role u \<noteq> Admin \<longrightarrow> status s = Pending)))"
proof (rule conjI)
  show "\<forall>u audio. req_user req = Some u \<and> req_audioFile req = Some audio
        \<and> save (build_song now u audio req) = None \<longrightarrow>
        fst (post_song_handler save now req)
          = Response 201 (SongJson ''Song uploaded successfully'' (build_song now u audio req))
      \<and> uploadedBy (build_song now u audio req) = user_id u
      \<and> (role u = Admin \<longrightarrow>
            status (build_song now u audio req) = Approved
          \<and> moderatedBy (build_song now u audio req) = Some (user_id u)
          \<and> moderatedAt (build_song now u audio req) = Some now)
      \<and> (role u \<noteq> Admin \<longrightarrow>
            status (build_song now u audio req) = Pending
          \<and> moderatedBy (build_song now u audio req) = None
          \<and> moderatedAt (build_song now u audio req) = None)"
    by (simp add: post_song_handler_def post_song_attempt_def Let_def)
       (simp add: build_song_def new_Song_def Let_def split: option.splits)
next
  show "\<forall>msg s d. post_song_handler save now req = (Response 201 (SongJson msg s), d) \<longrightarrow>
         (\<exists>u. req_user req = Some u \<and> uploadedBy s = user_id u
            \<and> (role u = Admin \<longrightarrow>
                  status s = Approved \<and> moderatedBy s = Some (user_id u) \<and> moderatedAt s = Some now)
            \<and> (role u \<noteq> Admin \<longrightarrow> status s = Pending))"
    by (auto simp add: post_song_handler_def post_song_attempt_def Let_def
          build_song_def new_Song_def split: option.splits sum.splits if_splits)
qed

theorem upload_initial_status_witness:
  "http_status (fst (post_song_handler no_error 1700000000000 (uploaded_request carol))) = 201 \<and>
   status (build_song 1700000000000 carol example_attached (uploaded_request carol)) = Approved \<and>
   moderatedBy (build_song 1700000000000 carol example_attached (uploaded_request carol))
     = Some ''64b000000000000000000003'' \<and>
   moderatedAt (build_song 1700000000000 carol example_attached (uploaded_request carol))
     = Some 1700000000000 \<and>
   http_status (fst (post_song_handler no_error 1700000000000 (uploaded_request alice))) = 201 \<and>
   status (build_song 1700000000000 alice example_attached (uploaded_request alice)) = Pending"
proof -
  have r: "req_user (uploaded_request carol) = Some carol
      \<and> req_audioFile (uploaded_request carol) = Some example_attached
      \<and> no_error (build_song 1700000000000 carol example_attached (uploaded_request carol)) = None"
    by (simp add: uploaded_request_def song_request_of_def no_error_def)
  have a: "req_user (uploaded_request alice) = Some alice
      \<and> req_audioFile (uploaded_request alice) = Some example_attached
      \<and> no_error (build_song 1700000000000 alice example_attached (uploaded_request alice)) = None"
    by (simp add: uploaded_request_def song_request_of_def no_error_def)
  have ra: "role carol = Admin" "user_id carol = ''64b000000000000000000003''" "role alice \<noteq> Admin"
    by (simp_all add: carol_def alice_def)
  show ?thesis
    using upload_initial_status [of "uploaded_request carol" no_error 1700000000000]
      upload_initial_status [of "uploaded_request alice" no_error 1700000000000] r a ra
    by simp
qed

section \<open>Evaluating the upload library on concrete requests\<close>

lemma filter_long_audio: "combinedFileFilter long_audio = Inr True"
  by (simp add: combinedFileFilter_def audioFileFilter_def long_audio_def audio_allowedMimes_def)

lemma filter_big_cover: "combinedFileFilter big_cover = Inr True"
  by (simp add: combinedFileFilter_def imageFileFilter_def big_cover_def image_allowedMimes_def)

lemma filter_big_avatar: "imageFileFilter big_avatar = Inr True"
  by (simp add: imageFileFilter_def big_avatar_def image_allowedMimes_def)

lemma filter_small_avatar: "imageFileFilter small_avatar = Inr True"
  by (simp add: imageFileFilter_def small_avatar_def image_allowedMimes_def)

lemma multer_song_large_cover:
  "multer_files songUpload gen_name [(''audio'', 1), (''coverImage'', 1)] 0 [long_audio, big_cover]
     = Inr [disk_store gen_name long_audio, disk_store gen_name big_cover]"
proof -
  have f: "fieldname long_audio = ''audio''" "fieldname big_cover = ''coverImage''"
    "file_size long_audio = 50 * 1024 * 1024" "file_size big_cover = 6 * 1024 * 1024"
    by (simp_all add: long_audio_def big_cover_def)
  have l: "config_limits songUpload = \<lparr>fileSize = 100 * 1024 * 1024, files = 2\<rparr>"
    "fileFilter songUpload = combinedFileFilter"
    by (simp_all add: songUpload_def)
  show ?thesis
    by (simp add: f l filter_long_audio filter_big_cover)
qed

lemma multer_profile_large_avatar:
  "multer_files profileImageUpload gen_name [(''avatar'', 1)] 0 [big_avatar]
     = Inl (MulterError ''LIMIT_FILE_SIZE'' ''File too large'')"
proof -
  have f: "fieldname big_avatar = ''avatar''" "file_size big_avatar = 6 * 1024 * 1024"
    by (simp_all add: big_avatar_def)
  have l: "config_limits profileImageUpload = \<lparr>fileSize = 5 * 1024 * 1024, files = 1\<rparr>"
    "fileFilter profileImageUpload = imageFileFilter"
    by (simp_all add: profileImageUpload_def)
  show ?thesis
    by (simp add: f l filter_big_avatar)
qed

lemma multer_profile_small_avatar:
  "multer_files profileImageUpload gen_name [(''avatar'', 1)] 0 [small_avatar]
     = Inr [disk_store gen_name small_avatar]"
proof -
  have f: "fieldname small_avatar = ''avatar''" "file_size small_avatar = 2048"
    by (simp_all add: small_avatar_def)
  have l: "config_limits profileImageUpload = \<lparr>fileSize = 5 * 1024 * 1024, files = 1\<rparr>"
    "fileFilter profileImageUpload = imageFileFilter"
    by (simp_all add: profileImageUpload_def)
  show ?thesis
    by (simp add: f l filter_small_avatar)
qed

section \<open>Size limits of the song upload\<close>

text \<open>
  Claim C4 says the song upload rejects a \<open>coverImage\<close> above 5 MiB while accepting an
  audio file of up to 100 MiB. The configuration \<open>songUpload\<close> holds a single
  \<open>fileSize\<close> limit of 100 MiB for every file of the request, so a 6 MiB cover image
  next to a 50 MiB audio file passes the upload middleware, although the middleware's
  own size-limit message promises "images under 5MB" and although the profile-image
  configuration answers 400 to the same 6 MiB image.
\<close>

theorem song_upload_accepts_large_cover:
  "file_size big_cover = 6 * 1024 * 1024 \<and>
   file_size long_audio = 50 * 1024 * 1024 \<and>
   proceeds (uploadSongFiles gen_name (song_request_of (Some alice) [long_audio, big_cover])) \<and>
   answered (uploadProfileImage gen_name (avatar_request_of (Some alice) [big_avatar])) = Some 400"
proof -
  have s: "files_of ''audio'' [disk_store gen_name long_audio, disk_store gen_name big_cover] \<noteq> []"
    by (simp add: files_of_def disk_store_def long_audio_def upload_file.extend_def)
  have 1: "proceeds (uploadSongFiles gen_name (song_request_of (Some alice) [long_audio, big_cover]))"
    using s
    by (simp add: uploadSongFiles_def song_request_of_def multer_song_large_cover proceeds_def
          Let_def del: multer_files.simps One_nat_def split: list.splits)
  have 2: "answered (uploadProfileImage gen_name (avatar_request_of (Some alice) [big_avatar])) = Some 400"
    by (simp add: uploadProfileImage_def avatar_request_of_def multer_profile_large_avatar
          answered_def del: multer_files.simps One_nat_def)
  show ?thesis
    using 1 2 by (simp add: big_cover_def long_audio_def)
qed

section \<open>Storage destination\<close>

text \<open>
  Claim C5 says fields \<open>coverImage\<close> and \<open>avatar\<close> are stored in the image directory.
  \<open>storage.destination\<close> names \<open>audio\<close> and \<open>coverImage\<close> only, so an accepted
  \<open>avatar\<close> file is written to the temp directory, while \<open>uploadProfileImage\<close> attaches
  to it a URL under \<open>/uploads/images/\<close>.
\<close>

theorem avatar_destination_is_temp:
  "storage_destination small_avatar = ''uploads/temp'' \<and>
   (case uploadProfileImage gen_name (avatar_request_of (Some alice) [small_avatar]) of
      Respond r \<Rightarrow> False
    | Next req' \<Rightarrow>
        map_option path (req_file req') = Some ''uploads/temp/1700000000000-42-me.png'' \<and>
        map_option url (req_uploadedImage req') = Some ''/uploads/images/1700000000000-42-me.png'')"
proof -
  have d: "storage_destination small_avatar = ''uploads/temp''"
    by (simp add: storage_destination_def small_avatar_def)
  have n: "gen_name small_avatar = ''1700000000000-42-me.png''"
    by (simp add: gen_name_def small_avatar_def)
  have p: "path (disk_store gen_name small_avatar) = ''uploads/temp/1700000000000-42-me.png''"
    "filename (disk_store gen_name small_avatar) = ''1700000000000-42-me.png''"
    by (simp_all add: disk_store_def d n upload_file.extend_def stored_file.fields_def)
  show ?thesis
    by (simp add: d uploadProfileImage_def avatar_request_of_def multer_profile_small_avatar
          p attach_url_def stored_file.extend_def attached_file.fields_def
          del: multer_files.simps One_nat_def)
qed

section \<open>Rating aggregation\<close>

text \<open>
  Claim C6. For every track and every rating \<open>r\<close> with \<open>1 \<le> r \<le> 5\<close>, \<open>addRating(r)\<close>
  sets \<open>ratingCount\<close> to its prior value plus 1 and \<open>averageRating\<close> to
  \<open>(priorAverage * priorCount + r) / (priorCount + 1)\<close>, whatever the store then does
  with the document. In particular, on a track with no prior ratings \<open>addRating(5)\<close>
  yields average 5 and count 1, and \<open>addRating(3)\<close> afterwards yields average 4 and
  count 2.
\<close>

theorem addRating_running_mean:
  "(1 \<le> r \<and> r \<le> 5 \<longrightarrow>
      ratingCount (stats (fst (addRating save r s))) = ratingCount (stats s) + 1 \<and>
      averageRating (stats (fst (addRating save r s))) =
        (averageRating (stats s) * of_nat (ratingCount (stats s)) + r)
          / (of_nat (ratingCount (stats s)) + 1) \<and>
      snd (addRating save r s) = save (fst (addRating save r s))) \<and>
   (ratingCount (stats s) = 0 \<longrightarrow>
      averageRating (stats (fst (addRating save 5 s))) = 5 \<and>
      ratingCount (stats (fst (addRating save 5 s))) = 1 \<and>
      averageRating (stats (fst (addRating save' 3 (fst (addRating save 5 s))))) = 4 \<and>
      ratingCount (stats (fst (addRating save' 3 (fst (addRating save 5 s))))) = 2)"
  by (simp add: addRating_def Let_def)

theorem addRating_running_mean_witness:
  "averageRating (stats (fst (addRating save_ok 5 example_song))) = 5 \<and>
   ratingCount (stats (fst (addRating save_ok 5 example_song))) = 1 \<and>
   averageRating (stats (fst (addRating save_ok 3 (fst (addRating save_ok 5 example_song))))) = 4 \<and>
   ratingCount (stats (fst (addRating save_ok 3 (fst (addRating save_ok 5 example_song))))) = 2 \<and>
   ratingCount (stats (fst (addRating save_fails 2 example_song))) = 1 \<and>
   averageRating (stats (fst (addRating save_fails 2 example_song))) = 2"
  using addRating_running_mean [of 2 save_fails example_song save_ok]
    addRating_running_mean [of 5 save_ok example_song save_ok]
  by (simp add: example_song_def default_stats_def)

text \<open>
  Claim C10. For every track and every rating \<open>r\<close> with \<open>r < 1\<close> or \<open>r > 5\<close>,
  \<open>addRating(r)\<close> fails with an error and leaves the track unchanged: the error is
  raised before any mutation, so \<open>averageRating\<close> and \<open>ratingCount\<close> keep their prior
  values.
\<close>

theorem addRating_out_of_range:
  "r < 1 \<or> r > 5 \<Longrightarrow>
     snd (addRating save r s) = Some (JsError ''Error'' ''Rating must be between 1 and 5'' []) \<and>
     fst (addRating save r s) = s \<and>
     averageRating (stats (fst (addRating save r s))) = averageRating (stats s) \<and>
     ratingCount (stats (fst (addRating save r s))) = ratingCount (stats s)"
  by (auto simp add: addRating_def)

theorem addRating_out_of_range_witness:
  "snd (addRating save_ok 6 example_song)
     = Some (JsError ''Error'' ''Rating must be between 1 and 5'' []) \<and>
   fst (addRating save_ok 0 example_song) = example_song \<and>
   ratingCount (stats (fst (addRating save_ok 6 example_song))) = 0 \<and>
   averageRating (stats (fst (addRating save_ok 6 example_song))) = 0"
  using addRating_out_of_range [of 6 save_ok example_song]
    addRating_out_of_range [of 0 save_ok example_song]
  by (simp add: example_song_def default_stats_def)

section \<open>File type acceptance\<close>

text \<open>
  Claim C7. A file filter accepts a file if and only if its declared MIME type is in
  the allow-list of its field kind or its lower-cased file name extension is in the
  extension allow-list of that kind (audio: mp3, wav, aac, ogg, webm, mp4, m4a, flac;
  image: jpg/jpeg, png, gif, webp); every other file is refused with an error. So a
  file whose extension and MIME type disagree is accepted whenever one of the two
  matches.
\<close>

theorem file_filter_or_policy:
  "(audioFileFilter f = Inr True \<longleftrightarrow>
      mimetype f \<in> {''audio/mpeg'', ''audio/mp3'', ''audio/wav'', ''audio/wave'', ''audio/x-wav'',
                     ''audio/aac'', ''audio/ogg'', ''audio/webm'', ''audio/mp4'', ''audio/m4a'',
                     ''audio/x-m4a'', ''audio/flac''}
      \<or> toLowerCase (extname (originalname f))
            \<in> {''.mp3'', ''.wav'', ''.aac'', ''.ogg'', ''.webm'', ''.mp4'', ''.m4a'', ''.flac''})
   \<and> (imageFileFilter f = Inr True \<longleftrightarrow>
      mimetype f \<in> {''image/jpeg'', ''image/jpg'', ''image/png'', ''image/gif'', ''image/webp''}
      \<or> toLowerCase (extname (originalname f)) \<in> {''.jpg'', ''.jpeg'', ''.png'', ''.gif'', ''.webp''})
   \<and> (audioFileFilter f = Inr True \<or> (\<exists>e. audioFileFilter f = Inl e))
   \<and> (imageFileFilter f = Inr True \<or> (\<exists>e. imageFileFilter f = Inl e))"
  unfolding audioFileFilter_def imageFileFilter_def Let_def
    audio_allowedMimes_def audio_allowedExtensions_def image_allowedMimes_def image_allowedExtensions_def
  by (simp del: join.simps)

theorem file_filter_or_policy_witness:
  "audioFileFilter mislabelled_mp3 = Inr True \<and> audioFileFilter misnamed_mpeg = Inr True \<and>
   audioFileFilter text_note \<noteq> Inr True \<and> imageFileFilter big_cover = Inr True"
proof -
  have e1: "toLowerCase (extname (originalname mislabelled_mp3)) = ''.mp3''"
    by (simp add: mislabelled_mp3_def extname_def extname_init_def mark_end_def mark_dot_def
          toLowerCase_def lower_char_def)
  have e2: "mimetype misnamed_mpeg = ''audio/mpeg''" by (simp add: misnamed_mpeg_def)
  have e3: "toLowerCase (extname (originalname text_note)) = ''.txt''"
    by (simp add: text_note_def extname_def extname_init_def mark_end_def mark_dot_def
          toLowerCase_def lower_char_def)
  have e4: "mimetype text_note = ''text/plain''" by (simp add: text_note_def)
  have e5: "mimetype big_cover = ''image/png''" by (simp add: big_cover_def)
  show ?thesis
    using file_filter_or_policy [of mislabelled_mp3] file_filter_or_policy [of misnamed_mpeg]
      file_filter_or_policy [of text_note] file_filter_or_policy [of big_cover]
    by (simp add: e1 e2 e3 e4 e5)
qed

section \<open>Soft delete and ownership\<close>

text \<open>
  Claim C8, as stated, says that a nonexistent track is answered 404. The handler has
  no branch for a lookup that throws: for an id that does not cast to an ObjectId,
  under which no track exists, \<open>findById\<close> throws and the request is answered 500.
\<close>

theorem delete_song_counterexample:
  "example_store ''abc'' = None \<and>
   fst (delete_song_handler example_find_error no_error example_store (delete_request alice ''abc''))
     = Response 500
         (ErrorJson ''Song deletion failed'' ''An error occurred while deleting the song'') \<and>
   http_status (fst (delete_song_handler example_find_error no_error example_store
       (delete_request alice ''abc''))) \<noteq> 404"
  by (simp add: delete_song_handler_def delete_request_def example_find_error_def
        example_store_def Let_def)

text \<open>
  Claim C8, amended. For every authenticated delete request whose lookup in the
  catalog store does not throw: a nonexistent track is answered 404 and the store is
  unchanged; on an existing track, a caller who is not an admin and whose id differs
  from the track's \<open>uploadedBy\<close> is answered 403 and the store is unchanged; for the
  owner or an admin, when saving the change does not throw the request is answered
  200, the track stays in the store with its active flag false and no other track
  changes, and when saving throws the request is answered 500 and the store is
  unchanged.
\<close>

theorem delete_song_ownership:
  "req_user req = Some u \<and> params_id req = Some sid \<and> find_error sid = None \<longrightarrow>
     (store sid = None \<longrightarrow>
        http_status (fst (delete_song_handler find_error save store req)) = 404
      \<and> snd (delete_song_handler find_error save store req) = store)
   \<and> (\<forall>song. store sid = Some song \<longrightarrow>
         (role u \<noteq> Admin \<and> uploadedBy song \<noteq> user_id u \<longrightarrow>
            http_status (fst (delete_song_handler find_error save store req)) = 403
          \<and> snd (delete_song_handler find_error save store req) = store)
       \<and> ((role u = Admin \<or> uploadedBy song = user_id u)
            \<and> save (song\<lparr>isActive := False\<rparr>) = None \<longrightarrow>
            fst (delete_song_handler find_error save store req)
              = Response 200 (MessageJson ''Song deleted successfully'')
          \<and> snd (delete_song_handler find_error save store req) sid
              = Some (song\<lparr>isActive := False\<rparr>)
          \<and> (\<forall>other. other \<noteq> sid \<longrightarrow>
                snd (delete_song_handler find_error save store req) other = store other))
       \<and> (\<forall>e. (role u = Admin \<or> uploadedBy song = user_id u)
            \<and> save (song\<lparr>isActive := False\<rparr>) = Some e \<longrightarrow>
            http_status (fst (delete_song_handler find_error save store req)) = 500
          \<and> snd (delete_song_handler find_error save store req) = store))"
  by (auto simp add: delete_song_handler_def Let_def)

theorem delete_song_ownership_witness:
  "http_status (fst (delete_song_handler example_find_error save_ok example_store
      (delete_request alice ''64c0000000000000000000ff''))) = 404 \<and>
   http_status (fst (delete_song_handler example_find_error save_ok example_store
      (delete_request dave ''64c000000000000000000001''))) = 403 \<and>
   snd (delete_song_handler example_find_error save_ok example_store
      (delete_request dave ''64c000000000000000000001'')) = example_store \<and>
   http_status (fst (delete_song_handler example_find_error save_ok example_store
      (delete_request alice ''64c000000000000000000001''))) = 200 \<and>
   snd (delete_song_handler example_find_error save_ok example_store
      (delete_request alice ''64c000000000000000000001'')) ''64c000000000000000000001''
     = Some (example_song\<lparr>uploadedBy := ''64b000000000000000000001'', isActive := False\<rparr>) \<and>
   http_status (fst (delete_song_handler example_find_error save_ok example_store
      (delete_request carol ''64c000000000000000000001''))) = 200 \<and>
   snd (delete_song_handler example_find_error save_ok example_store
      (delete_request carol ''64c000000000000000000001'')) ''64c000000000000000000001''
     = Some (example_song\<lparr>uploadedBy := ''64b000000000000000000001'', isActive := False\<rparr>) \<and>
   http_status (fst (delete_song_handler example_find_error save_fails example_store
      (delete_request alice ''64c000000000000000000001''))) = 500 \<and>
   snd (delete_song_handler example_find_error save_fails example_store
      (delete_request alice ''64c000000000000000000001'')) = example_store"
proof -
  have st: "example_store ''64c0000000000000000000ff'' = None"
    "example_store ''64c000000000000000000001''
       = Some (example_song\<lparr>uploadedBy := ''64b000000000000000000001''\<rparr>)"
    by (simp_all add: example_store_def)
  have fe: "example_find_error ''64c0000000000000000000ff'' = None"
    "example_find_error ''64c000000000000000000001'' = None"
    by (simp_all add: example_find_error_def)
  have us: "role alice \<noteq> Admin" "role dave \<noteq> Admin" "role carol = Admin"
    "user_id alice = ''64b000000000000000000001''" "user_id dave = ''64b000000000000000000004''"
    by (simp_all add: alice_def dave_def carol_def)
  have rq: "\<And>u sid. req_user (delete_request u sid) = Some u
      \<and> params_id (delete_request u sid) = Some sid"
    by (simp add: delete_request_def)
  have sv: "\<And>x. save_ok x = None"
    "\<And>x. save_fails x = Some (JsError ''MongoNetworkError'' ''connection lost'' [])"
    by (simp_all add: save_ok_def save_fails_def)
  show ?thesis
    using
      delete_song_ownership [of "delete_request alice ''64c0000000000000000000ff''" alice
        "''64c0000000000000000000ff''" example_find_error example_store save_ok]
      delete_song_ownership [of "delete_request dave ''64c000000000000000000001''" dave
        "''64c000000000000000000001''" example_find_error example_store save_ok]
      delete_song_ownership [of "delete_request alice ''64c000000000000000000001''" alice
        "''64c000000000000000000001''" example_find_error example_store save_ok]
      delete_song_ownership [of "delete_request carol ''64c000000000000000000001''" carol
        "''64c000000000000000000001''" example_find_error example_store save_ok]
      delete_song_ownership [of "delete_request alice ''64c000000000000000000001''" alice
        "''64c000000000000000000001''" example_find_error example_store save_fails]
      st fe us rq sv
    by simp
qed

section \<open>Moderation transitions\<close>


end
